theory Spec2Isabelle
  imports Main "HOL-Library.Sublist"
begin

section \<open>asset\_conv: a shallow embedding of the task orchestration layer\<close>

text \<open>
  The development follows \<^verbatim>\<open>src/asset_conv.cpp\<close>: the request parser
  (\<^verbatim>\<open>Processor::parse\<close>), the producer side (\<^verbatim>\<open>parseAndQueue\<close>), the
  file-backed dedup ledger (\<^verbatim>\<open>fileExistsInSubfolder\<close>), the conversion pipeline
  (\<^verbatim>\<open>TaskRunner::operator()\<close>) and one iteration of the worker loop
  (\<^verbatim>\<open>processQueue\<close>). A \<^verbatim>\<open>std::string\<close> is a \<open>string\<close> (a list of bytes), the
  two output streams are strings that grow, the file system is an explicit store.
\<close>

subsection \<open>Characters and the C library\<close>

abbreviation newline :: char where
  "newline \<equiv> CHR 0x0A"

abbreviation semicolon :: char where
  "semicolon \<equiv> CHR '';''"

text \<open>\<^verbatim>\<open>isspace\<close> and \<^verbatim>\<open>isdigit\<close> of the C locale.\<close>

definition isspace :: "char \<Rightarrow> bool" where
  "isspace c = (c = CHR '' '' \<or> c = CHR 0x09 \<or> c = CHR 0x0A \<or> c = CHR 0x0B
                \<or> c = CHR 0x0C \<or> c = CHR 0x0D)"

definition isdigit :: "char \<Rightarrow> bool" where
  "isdigit c = (48 \<le> (of_char c :: nat) \<and> (of_char c :: nat) \<le> 57)"

definition digit_value :: "char \<Rightarrow> int" where
  "digit_value c = int (of_char c) - 48"

text \<open>
  \<^verbatim>\<open>std::atoi\<close> as the C library has it, \<^verbatim>\<open>(int) strtol(s, NULL, 10)\<close>: leading
  white space is skipped, one optional sign is read, then the longest run of decimal
  digits; a string with no digit there converts to 0. The \<^verbatim>\<open>long\<close> saturates at 64
  bits and the cast to \<^verbatim>\<open>int\<close> keeps the low 32 bits (two's complement).
\<close>

fun strtol_digits :: "int \<Rightarrow> string \<Rightarrow> int" where
  "strtol_digits acc [] = acc"
| "strtol_digits acc (c # cs) =
     (if isdigit c then strtol_digits (acc * 10 + digit_value c) cs else acc)"

definition LONG_MAX :: int where
  "LONG_MAX = 2 ^ 63 - 1"

definition LONG_MIN :: int where
  "LONG_MIN = - (2 ^ 63)"

text \<open>The sign character, if there is one, and what follows it.\<close>

fun negative :: "string \<Rightarrow> bool" where
  "negative [] = False"
| "negative (c # r) = (c = CHR ''-'')"

fun drop_sign :: "string \<Rightarrow> string" where
  "drop_sign [] = []"
| "drop_sign (c # r) = (if c = CHR ''-'' \<or> c = CHR ''+'' then r else c # r)"

definition strtol :: "string \<Rightarrow> int" where
  "strtol s =
     (let s1 = dropWhile isspace s;
          v = strtol_digits 0 (drop_sign s1);
          l = (if negative s1 then - v else v)
      in max LONG_MIN (min LONG_MAX l))"

definition to_int32 :: "int \<Rightarrow> int" where
  "to_int32 v = (v + 2 ^ 31) mod 2 ^ 32 - 2 ^ 31"

definition atoi :: "string \<Rightarrow> int" where
  "atoi s = to_int32 (strtol s)"

text \<open>Decimal output of an unsigned number, as \<^verbatim>\<open>operator<<\<close> prints a \<^verbatim>\<open>size_t\<close>.\<close>

definition digit_char :: "nat \<Rightarrow> char" where
  "digit_char d = char_of (48 + d)"

fun show_nat :: "nat \<Rightarrow> string" where
  "show_nat n = (if n < 10 then [digit_char n] else show_nat (n div 10) @ [digit_char (n mod 10)])"

declare show_nat.simps [simp del]

subsection \<open>Task definitions and the processor's state\<close>

text \<open>The struct \<^verbatim>\<open>TaskDef\<close>; its member \<^verbatim>\<open>size\<close> is the field \<open>size_px\<close>
  (\<open>size\<close> is a constant of HOL), a 32-bit \<^verbatim>\<open>int\<close> kept as the integer it denotes.\<close>

record TaskDef =
  fname_in :: string
  fname_out :: string
  size_px :: int

text \<open>A node of the file system: a directory, or a regular file with the two
  permissions the program depends on and its content.\<close>

datatype node = Directory | RegularFile (readable: bool) (writable: bool) (content: string)

text \<open>
  The state the code reads and writes: the queue and the running flag of the
  \<^verbatim>\<open>Processor\<close> (the members \<^verbatim>\<open>task_queue_\<close> and \<^verbatim>\<open>should_run_\<close>; a
  field name cannot end in an underscore here), the text written so far to
  \<^verbatim>\<open>std::cerr\<close> and \<^verbatim>\<open>std::cout\<close>, and the file system (\<open>files\<close> maps a path to its
  node, \<open>creatable\<close> tells whether the operating system lets the process create a file
  at a path that has none).
\<close>

record state =
  task_queue :: "TaskDef list"
  should_run :: bool
  cerr :: string
  cout :: string
  files :: "string \<rightharpoonup> node"
  creatable :: "string \<Rightarrow> bool"

definition cerr_write :: "string \<Rightarrow> state \<Rightarrow> state" where
  "cerr_write txt s = s\<lparr>cerr := cerr s @ txt\<rparr>"


subsection \<open>\<^verbatim>\<open>Processor::parse\<close>\<close>

text \<open>\<^verbatim>\<open>line.find(";")\<close>: the index of the first separator, \<open>None\<close> for \<^verbatim>\<open>npos\<close>.\<close>

fun find_char :: "char \<Rightarrow> string \<Rightarrow> nat option" where
  "find_char c [] = None"
| "find_char c (x # xs) =
     (if x = c then Some 0 else (case find_char c xs of None \<Rightarrow> None | Some i \<Rightarrow> Some (Suc i)))"

text \<open>The loop of \<^verbatim>\<open>parse\<close>: cut the line at each separator, then push what is left.\<close>

function tokenize :: "string \<Rightarrow> string list \<Rightarrow> string list" where
  "tokenize line tokens =
     (case find_char semicolon line of
        None \<Rightarrow> tokens @ [line]
      | Some pos \<Rightarrow> tokenize (drop (pos + 1) line) (tokens @ [take pos line]))"
  by pat_completeness auto
termination
proof (relation "measure (\<lambda>(line, tokens). length line)")
  show "wf (measure (\<lambda>(line, tokens). length line))"
    by simp
next
  fix line :: string and tokens :: "string list" and pos :: nat
  assume "find_char semicolon line = Some pos"
  then have "pos < length line"
    by (induction line arbitrary: pos) (auto split: if_splits option.splits)
  then show "((drop (pos + 1) line, tokens @ [take pos line]), (line, tokens))
               \<in> measure (\<lambda>(line, tokens). length line)"
    by simp
qed

declare tokenize.simps [simp del]

definition parse :: "string \<Rightarrow> state \<Rightarrow> TaskDef option \<times> state" where
  "parse line_org s =
     (let tokens = tokenize line_org [] in
      if length tokens < 3 then
        (None, cerr_write (''Error: Wrong line format: '' @ line_org @ '' (size: ''
                            @ show_nat (length line_org) @ '').'' @ [newline]) s)
      else
        (Some \<lparr>fname_in = tokens ! 0, fname_out = tokens ! 1, size_px = atoi (tokens ! 2)\<rparr>, s))"

text \<open>\<^verbatim>\<open>parseAndQueue\<close>: a parsed definition goes to the back of the queue.\<close>

definition parseAndQueue :: "string \<Rightarrow> state \<Rightarrow> state" where
  "parseAndQueue line_org s =
     (case parse line_org s of
        (Some def, s1) \<Rightarrow>
          (let s2 = cerr_write (''Queueing task '' @ [CHR 0x27] @ line_org @ [CHR 0x27] @ ''.''
                                  @ [newline]) s1
           in s2\<lparr>task_queue := task_queue s2 @ [def]\<rparr>)
      | (None, s1) \<Rightarrow> s1)"

definition queueEmpty :: "state \<Rightarrow> bool" where
  "queueEmpty s = (task_queue s = [])"

subsection \<open>Paths and files\<close>














subsection \<open>\<^verbatim>\<open>Processor::fileExistsInSubfolder\<close>\<close>




subsection \<open>\<^verbatim>\<open>TaskRunner::operator()\<close>\<close>










subsection \<open>\<^verbatim>\<open>Processor::processQueue\<close>\<close>





subsection \<open>Notions the properties are stated with\<close>

text \<open>
  The fields of a line: the text between its separators, so a line with \<open>n\<close>
  separators has \<open>n + 1\<close> fields; \<open>join_fields\<close> writes fields back as a line.
\<close>

fun split_fields :: "string \<Rightarrow> string list" where
  "split_fields [] = [[]]"
| "split_fields (c # cs) =
     (if c = semicolon then [] # split_fields cs
      else (case split_fields cs of [] \<Rightarrow> [[c]] | f # fs \<Rightarrow> (c # f) # fs))"

fun join_fields :: "string list \<Rightarrow> string" where
  "join_fields [] = []"
| "join_fields [f] = f"
| "join_fields (f # g # fs) = f @ [semicolon] @ join_fields (g # fs)"



text \<open>A processor that has just been built, in a directory with no file at all, and the
  same with the directory \<^verbatim>\<open>output\<close> in place.\<close>

definition init_state :: state where
  "init_state = \<lparr>task_queue = [], should_run = True, cerr = [], cout = [],
                  files = Map.empty, creatable = (\<lambda>p. False)\<rparr>"






















section \<open>Properties\<close>

subsection \<open>Splitting a line\<close>

lemma split_fields_nonempty: "split_fields line \<noteq> []"
  by (induction line) (auto split: list.splits)

lemma find_char_None: "find_char c xs = None \<longleftrightarrow> c \<notin> set xs"
  by (induction xs) (auto split: option.splits)

lemma split_fields_no_sep: "semicolon \<notin> set line \<Longrightarrow> split_fields line = [line]"
  by (induction line) auto

lemma split_fields_at_sep:
  "find_char semicolon line = Some pos \<Longrightarrow>
   split_fields line = take pos line # split_fields (drop (pos + 1) line)"
proof (induction line arbitrary: pos)
  case Nil
  then show ?case by simp
next
  case (Cons c cs)
  show ?case
  proof (cases "c = semicolon")
    case True
    with Cons.prems show ?thesis by simp
  next
    case False
    with Cons.prems obtain i where i: "find_char semicolon cs = Some i" "pos = Suc i"
      by (auto split: option.splits)
    from Cons.IH[OF i(1)] False i(2) show ?thesis by simp
  qed
qed

text \<open>The loop of \<^verbatim>\<open>parse\<close> computes the fields of the line.\<close>

lemma tokenize_split_fields: "tokenize line tokens = tokens @ split_fields line"
proof (induction line tokens rule: tokenize.induct)
  case (1 line tokens)
  show ?case
  proof (cases "find_char semicolon line")
    case None
    moreover from None have "split_fields line = [line]"
      by (simp add: find_char_None split_fields_no_sep)
    ultimately show ?thesis
      by (subst tokenize.simps) simp
  next
    case (Some pos)
    with "1" show ?thesis
      by (subst tokenize.simps) (simp add: split_fields_at_sep)
  qed
qed

lemma length_split_fields: "length (split_fields line) = Suc (count_list line semicolon)"
  by (induction line) (auto split: list.splits)

lemma split_fields_free: "f \<in> set (split_fields line) \<Longrightarrow> semicolon \<notin> set f"
proof (induction line arbitrary: f)
  case Nil
  then show ?case by simp
next
  case (Cons c cs)
  then show ?case
    using split_fields_nonempty[of cs]
    by (cases "split_fields cs") (auto split: if_splits)
qed

text \<open>Every line is the join of its fields, and the fields of a join are the fields
  joined: \<open>split_fields\<close> is the splitting on the separator.\<close>

lemma join_split_fields: "join_fields (split_fields line) = line"
proof (induction line)
  case Nil
  then show ?case by simp
next
  case (Cons c cs)
  obtain f fs where "split_fields cs = f # fs"
    using split_fields_nonempty[of cs] by (cases "split_fields cs") auto
  with Cons show ?case
    by (cases fs) auto
qed


subsection \<open>Numbers and their digits\<close>

lemmas atoi_eval = atoi_def strtol_def isspace_def isdigit_def digit_value_def to_int32_def
  LONG_MIN_def LONG_MAX_def

lemma show_nat_small: "n < 10 \<Longrightarrow> show_nat n = [digit_char n]"
  by (subst show_nat.simps) simp

lemma show_nat_large: "10 \<le> n \<Longrightarrow> show_nat n = show_nat (n div 10) @ [digit_char (n mod 10)]"
  by (subst show_nat.simps) simp

lemmas show_nat_eval = show_nat_small show_nat_large digit_char_def char_of_eq_iff















subsection \<open>The parser\<close>

lemma parse_three:
  assumes "3 \<le> length (split_fields line)"
  shows "parse line s =
           (Some \<lparr>fname_in = split_fields line ! 0, fname_out = split_fields line ! 1,
                   size_px = atoi (split_fields line ! 2)\<rparr>, s)"
  using assms by (simp add: parse_def tokenize_split_fields Let_def)

lemma parse_few:
  assumes "length (split_fields line) < 3"
  shows "parse line s =
           (None, s\<lparr>cerr := cerr s @ ''Error: Wrong line format: '' @ line @ '' (size: ''
                            @ show_nat (length line) @ '').'' @ [newline]\<rparr>)"
  using assms by (simp add: parse_def tokenize_split_fields cerr_write_def Let_def)



text \<open>
  Claim C5. A line with fewer than three fields is rejected: \<^verbatim>\<open>parse\<close> returns false
  (no request), the only effect is one diagnostic on \<^verbatim>\<open>std::cerr\<close> that holds the
  line and its length, and \<^verbatim>\<open>parseAndQueue\<close> leaves the queue as it was. Both functions
  return a value on every input: nothing is thrown.
\<close>

theorem parse_rejects_short_line:
  assumes "length (split_fields line) < 3"
  shows "parse line s =
           (None, s\<lparr>cerr := cerr s @ ''Error: Wrong line format: '' @ line @ '' (size: ''
                            @ show_nat (length line) @ '').'' @ [newline]\<rparr>)
       \<and> parseAndQueue line s =
           s\<lparr>cerr := cerr s @ ''Error: Wrong line format: '' @ line @ '' (size: ''
                     @ show_nat (length line) @ '').'' @ [newline]\<rparr>
       \<and> task_queue (parseAndQueue line s) = task_queue s"
  using parse_few[OF assms, of s] by (simp add: parseAndQueue_def)

theorem parse_rejects_short_line_witness:
  "length (split_fields ''onlyonefield'') < 3
   \<and> parse ''onlyonefield'' init_state =
       (None, init_state\<lparr>cerr := ''Error: Wrong line format: onlyonefield (size: 12).'' @ [newline]\<rparr>)
   \<and> task_queue (parseAndQueue ''onlyonefield'' init_state) = []"
proof -
  have short: "length (split_fields ''onlyonefield'') < 3"
    by simp
  from parse_rejects_short_line[OF short, of init_state] short show ?thesis
    by (simp add: show_nat_eval init_state_def)
qed




text \<open>
  Claim C10. \<^verbatim>\<open>parse\<close> looks at the number of fields and at nothing else: a line is
  accepted, with no diagnostic, exactly when it holds at least two separators. The line
  \<^verbatim>\<open>;;\<close> gives a request with empty paths and size 0, and a size that is not positive
  is accepted as it is.
\<close>

theorem parse_counts_fields_only:
  "(fst (parse line s) \<noteq> None) = (2 \<le> count_list line semicolon)
   \<and> (2 \<le> count_list line semicolon \<longrightarrow> (\<exists>d. parse line s = (Some d, s)))
   \<and> parse '';;'' s = (Some \<lparr>fname_in = [], fname_out = [], size_px = 0\<rparr>, s)
   \<and> parse ''a;b;-5'' s = (Some \<lparr>fname_in = ''a'', fname_out = ''b'', size_px = - 5\<rparr>, s)"
proof -
  have "fst (parse line s) \<noteq> None \<longleftrightarrow> 2 \<le> count_list line semicolon"
    by (auto simp: parse_def tokenize_split_fields Let_def length_split_fields)
  moreover have "\<exists>d. parse line s = (Some d, s)" if "2 \<le> count_list line semicolon"
    using that parse_three[of line s] by (simp add: length_split_fields)
  moreover have "parse '';;'' s = (Some \<lparr>fname_in = [], fname_out = [], size_px = 0\<rparr>, s)"
    by (simp add: parse_def tokenize_split_fields Let_def atoi_eval)
  moreover have "parse ''a;b;-5'' s = (Some \<lparr>fname_in = ''a'', fname_out = ''b'', size_px = - 5\<rparr>, s)"
    by (simp add: parse_def tokenize_split_fields Let_def atoi_eval)
  ultimately show ?thesis
    by blast
qed

theorem parse_counts_fields_only_witness:
  "2 \<le> count_list '';;'' semicolon
   \<and> parse '';;'' init_state = (Some \<lparr>fname_in = [], fname_out = [], size_px = 0\<rparr>, init_state)
   \<and> fst (parse ''a;b;0'' init_state) \<noteq> None"
proof -
  have "2 \<le> count_list ''a;b;0'' semicolon"
    by simp
  with parse_counts_fields_only[of "''a;b;0''" init_state]
    parse_counts_fields_only[of "'';;''" init_state]
  show ?thesis
    by simp
qed

subsection \<open>The dedup ledger\<close>
































subsection \<open>The conversion pipeline\<close>










subsection \<open>The worker\<close>








subsection \<open>The queue\<close>









end
